theory Spec2Isabelle
  imports Main
begin

section \<open>The supplied files as data\<close>

text \<open>
  The repository consists of two files: the Jupyter notebook
  \<^verbatim>\<open>examples/Setting up a basic measurement using the MC.ipynb\<close> and the CI configuration
  \<^verbatim>\<open>.travis.yml\<close>. Neither defines a function, so the embedding is the content of the two
  files together with the readers that extract from it what the claims speak about.

  A notebook is a list of cells. A code cell carries its execution count, its source lines
  and its captured outputs; a markdown cell carries its source lines. An output is either a
  stream (named \<^verbatim>\<open>stdout\<close> or \<^verbatim>\<open>stderr\<close>) or an execute result (its
  \<^verbatim>\<open>text/plain\<close> data). Every line is given without its terminating newline;
  a tab is written \<open>CHR 0x09\<close>. The per-cell display metadata (\<^verbatim>\<open>collapsed\<close>,
  \<^verbatim>\<open>scrolled\<close>) and the kernel metadata are left out.
\<close>

datatype cell_output =
    Stream string "string list"
  | Execute_Result nat "string list"

datatype cell =
    Code_Cell "nat option" "string list" "cell_output list"
  | Markdown_Cell "string list"

definition cell_00 :: cell where
  \<open>cell_00 =
   Code_Cell (Some 1)
     [''import pycqed as pq'',
      ''import numpy as np'',
      ''from pycqed.measurement import measurement_control'',
      ''from pycqed.measurement.sweep_functions import None_Sweep'',
      ''import pycqed.measurement.detector_functions as det'',
      ''from qcodes import station'',
      ''station = station.Station()'']
     [Stream ''stdout''
       [''Data directory set to: /Users/Adriaan/Documents/Testing/Data'']]\<close>

definition cell_01 :: cell where
  \<open>cell_01 =
   Markdown_Cell
     [''## Creating an instance of the measurement control'',
      '''',
      ''Measurements are controlled through the `MeasurementControl` usually instantiated as `MC`'']\<close>

definition cell_02 :: cell where
  \<open>cell_02 =
   Code_Cell (Some 2)
     [''MC = measurement_control.MeasurementControl(\'MC\',live_plot_enabled=True, verbose=True)'',
      ''MC.station = station'',
      ''station.add_component(MC)'']
     [Execute_Result 2
       [[CHR 0x27] @ ''MC'' @ [CHR 0x27]]]\<close>

definition cell_03 :: cell where
  \<open>cell_03 =
   Code_Cell (Some 3)
     [''from pycqed.instrument_drivers.virtual_instruments import instrument_monitor as im '',
      ''IM = im.InstrumentMonitor(\'IM\', station)'',
      ''station.add_component(IM)'',
      ''# Link the instrument monitor to the MC so that it gets updated in the loop'',
      ''MC.instrument_monitor(\'IM\')'']
     [Stream ''stderr''
       [''WARNING:root:Error getting or interpreting *IDN?: '' @ [CHR 0x27] @ [CHR 0x27]]]\<close>

definition cell_04 :: cell where
  \<open>cell_04 =
   Markdown_Cell
     [''## Create instruments used in the experiment '',
      ''Let\'s start by creating a dummy instrument called MockParabola. '']\<close>

definition cell_05 :: cell where
  \<open>cell_05 =
   Code_Cell (Some 4)
     [''from pycqed.instrument_drivers.physical_instruments.dummy_instruments import DummyParHolder'',
      ''dummy_instrument = DummyParHolder(\'dummy_instrument\')'',
      ''station.add_component(dummy_instrument)'']
     [Execute_Result 4
       [[CHR 0x27] @ ''dummy_instrument'' @ [CHR 0x27]]]\<close>

definition cell_06 :: cell where
  \<open>cell_06 =
   Markdown_Cell
     [''## A 1D hard measurement '',
      ''A hard measurement is a measurement where the data acquisition loop happens in the **hard**ware.'']\<close>

definition cell_07 :: cell where
  \<open>cell_07 =
   Code_Cell (Some 6)
     [''MC.soft_avg(15)'',
      ''MC.persist_mode(True)'',
      ''MC.set_sweep_function(None_Sweep(sweep_control=\'hard\'))'',
      ''MC.set_sweep_points(np.linspace(0, 10, 30))'',
      ''MC.set_detector_function(det.Dummy_Detector_Hard(noise=0.5, delay=.02))'',
      ''dat = MC.run(\'dummy_hard\')'']
     [Stream ''stdout''
       [''Starting measurement: dummy_hard'',
        ''Sweep function: None_Sweep'',
        ''Detector function: Dummy_Detector'',
        '' 100% completed '' @ [CHR 0x09] @ ''elapsed time: 1.1s '' @ [CHR 0x09] @ ''time left: 0.0s'']]\<close>

definition cell_08 :: cell where
  \<open>cell_08 =
   Markdown_Cell
     [''By setting persist_mode = True we can see a copy of the last measurements'']\<close>

definition cell_09 :: cell where
  \<open>cell_09 =
   Code_Cell (Some 7)
     ['''',
      ''MC.set_sweep_function(None_Sweep(sweep_control=\'hard\'))'',
      ''MC.set_sweep_points(np.linspace(0, 10, 30))'',
      ''MC.set_detector_function(det.Dummy_Detector_Hard(noise=0.5, delay=.02))'',
      ''dat2 = MC.run(\'dummy_hard persistent\')'']
     [Stream ''stdout''
       [''Starting measurement: dummy_hard persistent'',
        ''Sweep function: None_Sweep'',
        ''Detector function: Dummy_Detector'',
        '' 100% completed '' @ [CHR 0x09] @ ''elapsed time: 1.8s '' @ [CHR 0x09] @ ''time left: 0.0s'']]\<close>

definition cell_10 :: cell where
  \<open>cell_10 =
   Markdown_Cell
     [''# A simple 1D soft measurement '',
      ''A soft measurement is a a measurement where the data acquisition loop occurs in the **soft**ware'']\<close>

definition cell_11 :: cell where
  \<open>cell_11 =
   Code_Cell None
     []
     []\<close>

definition cell_12 :: cell where
  \<open>cell_12 =
   Code_Cell None
     []
     []\<close>

definition cell_13 :: cell where
  \<open>cell_13 =
   Code_Cell (Some 8)
     [''dummy_instrument.x(145/134545)'',
      ''IM.update()'']
     []\<close>

definition cell_14 :: cell where
  \<open>cell_14 =
   Code_Cell (Some 9)
     [''dummy_instrument.delay(.01)'',
      ''MC.soft_avg(15)'',
      ''MC.set_sweep_function(dummy_instrument.x)'',
      ''MC.set_sweep_points(np.linspace(-1,1,30))'',
      ''dummy_instrument.noise(1)'',
      '''',
      ''MC.set_detector_function(dummy_instrument.parabola)'',
      ''dat = MC.run(\'1D test\')'',
      '''',
      ''# the second plot will also show the first line'',
      ''MC.set_sweep_function(dummy_instrument.x)'',
      ''MC.set_sweep_points(np.linspace(-1,1,30))'',
      '''',
      ''dat2= MC.run(\'1D test-persist\')'']
     [Stream ''stdout''
       [''Starting measurement: 1D test'',
        ''Sweep function: x'',
        ''Detector function: parabola'',
        '' 100% completed '' @ [CHR 0x09] @ ''elapsed time: 6.6s '' @ [CHR 0x09] @ ''time left: 0.0s'',
        ''Starting measurement: 1D test-persist'',
        ''Sweep function: x'',
        ''Detector function: parabola'',
        '' 100% completed '' @ [CHR 0x09] @ ''elapsed time: 7.5s '' @ [CHR 0x09] @ ''time left: 0.0s'']]\<close>

definition cell_15 :: cell where
  \<open>cell_15 =
   Markdown_Cell
     [''You can play around a bit with the options in the MC: '']\<close>

definition cell_16 :: cell where
  \<open>cell_16 =
   Code_Cell (Some 10)
     [''MC.persist_mode(True) # Turns on and off persistent plotting'',
      ''MC.verbose(True)'',
      ''MC.plotting_interval(.2)'',
      ''MC.live_plot_enabled(True)'']
     []\<close>

definition cell_17 :: cell where
  \<open>cell_17 =
   Markdown_Cell
     [''# A simple 2D measurement'']\<close>

definition cell_18 :: cell where
  \<open>cell_18 =
   Code_Cell (Some 10)
     [''dummy_instrument.delay(.0001)'',
      ''MC.soft_avg(4)'',
      '''',
      ''sweep_pts = np.linspace(-2, 2, 30)'',
      ''sweep_pts_2D = np.linspace(-2, 2, 5)'',
      '''',
      ''MC.set_sweep_function(dummy_instrument.x)'',
      ''MC.set_sweep_function_2D(dummy_instrument.y)'',
      ''MC.set_sweep_points(sweep_pts)'',
      ''MC.set_sweep_points_2D(sweep_pts_2D)'',
      ''MC.set_detector_function(dummy_instrument.parabola)'',
      ''dat=MC.run(\'test\', mode=\'2D\')'']
     [Stream ''stdout''
       [''Starting measurement: test'',
        ''Sweep function 0: x'',
        ''Sweep function 1: Sweep_function'',
        ''Detector function: parabola'',
        '' 100% completed '' @ [CHR 0x09] @ ''elapsed time: 5.2s '' @ [CHR 0x09] @ ''time left: 0.0ss'']]\<close>

definition cell_19 :: cell where
  \<open>cell_19 =
   Markdown_Cell
     [''# 2D combinatioin of a hard inner and soft outer loop'',
      ''The hard inner loop returns 30 values '']\<close>

definition cell_20 :: cell where
  \<open>cell_20 =
   Code_Cell (Some 9)
     [''MC.soft_avg(1)'',
      ''sweep_pts = np.linspace(0, 10, 30)'',
      ''sweep_pts_2D = np.linspace(0, 10, 30)'',
      ''MC.set_sweep_function(None_Sweep(sweep_control=\'hard\'))'',
      ''MC.set_sweep_function_2D(None_Sweep(sweep_control=\'soft\'))'',
      ''MC.set_sweep_points(sweep_pts)'',
      ''MC.set_sweep_points_2D(sweep_pts_2D)'',
      ''MC.set_detector_function(det.Dummy_Detector_Hard(delay=.05, noise=.1))'',
      ''dat = MC.run(\'2D_hard\', mode=\'2D\')'']
     [Stream ''stdout''
       [''Starting measurement: 2D_hard'',
        ''Sweep function 0: None_Sweep'',
        ''Sweep function 1: None_Sweep'',
        ''Detector function: Dummy_Detector'',
        '' 100% completed '' @ [CHR 0x09] @ ''elapsed time: 14.0s '' @ [CHR 0x09] @ ''time left: 0.0s'']]\<close>

definition cell_21 :: cell where
  \<open>cell_21 =
   Markdown_Cell
     [''## A Hard measurement that uses soft averaging'']\<close>

definition cell_22 :: cell where
  \<open>cell_22 =
   Markdown_Cell
     [''The number of soft_averages determines how many times the experiment will be performed. '',
      ''Only the averaged data is plotted and saved. '',
      ''The number of soft-averages can be set as a parameter of the Measurement Control. '',
      '''',
      ''Will first implement it for 1D hard sweeps (easier) and then follow for combinations of hard and soft sweeps. '']\<close>

definition cell_23 :: cell where
  \<open>cell_23 =
   Code_Cell (Some 10)
     [''MC.soft_avg(4)'',
      ''MC.set_sweep_function(None_Sweep(sweep_control=\'hard\'))'',
      ''MC.set_sweep_points(np.linspace(0, 10, 30))'',
      ''MC.set_detector_function(det.Dummy_Detector_Hard(noise=1.5, delay=.02))'',
      '''',
      ''dat = MC.run(\'dummy_hard\')'']
     [Stream ''stdout''
       [''Starting measurement: dummy_hard'',
        ''Sweep function: None_Sweep'',
        ''Detector function: Dummy_Detector'',
        '' 100% completed '' @ [CHR 0x09] @ ''elapsed time: 1.1s '' @ [CHR 0x09] @ ''time left: 0.0s'']]\<close>

definition cell_24 :: cell where
  \<open>cell_24 =
   Markdown_Cell
     [''# 2D soft averaging'']\<close>

definition cell_25 :: cell where
  \<open>cell_25 =
   Code_Cell (Some 11)
     [''MC.soft_avg(10)'',
      ''sweep_pts = np.linspace(0, 10, 30)'',
      ''sweep_pts_2D = np.linspace(0, 10, 5)'',
      ''MC.set_sweep_function(None_Sweep(sweep_control=\'hard\'))'',
      ''MC.set_sweep_function_2D(None_Sweep(sweep_control=\'soft\'))'',
      ''MC.set_sweep_points(sweep_pts)'',
      ''MC.set_sweep_points_2D(sweep_pts_2D)'',
      ''MC.set_detector_function(det.Dummy_Detector_Hard(noise=1.5, delay=.001))'',
      '''',
      ''dat = MC.run(\'dummy_hard_2D\', mode=\'2D\')'']
     [Stream ''stdout''
       [''Starting measurement: dummy_hard_2D'',
        ''Sweep function 0: None_Sweep'',
        ''Sweep function 1: None_Sweep'',
        ''Detector function: Dummy_Detector'',
        '' 100% completed '' @ [CHR 0x09] @ ''elapsed time: 16.7s '' @ [CHR 0x09] @ ''time left: 0.0s'']]\<close>

definition cell_26 :: cell where
  \<open>cell_26 =
   Markdown_Cell
     ['''',
      ''## Starting an adaptive measurement '',
      ''This example does a 2D optimization over the mock parabola'']\<close>

definition cell_27 :: cell where
  \<open>cell_27 =
   Code_Cell (Some 12)
     [''from pycqed.measurement.optimization import nelder_mead'',
      ''MC.soft_avg(1)'',
      ''dummy_instrument'',
      ''MC.set_sweep_functions([dummy_instrument.x, dummy_instrument.y])'',
      ''MC.set_adaptive_function_parameters({\'adaptive_function\':nelder_mead, '',
      ''                                    \'x0\':[-5,-5], \'initial_step\': [2.5, 2.5]})'',
      ''dummy_instrument.noise(.5)'',
      ''MC.set_detector_function(dummy_instrument.parabola)'',
      ''dat = MC.run(\'1D test\', mode=\'adaptive\')'']
     [Stream ''stdout''
       [''Starting measurement: 1D test'',
        ''Sweep function 0: module'',
        ''Sweep function 1: module'',
        ''Detector function: parabola'',
        ''Optimization completed in 1.564s'']]\<close>

definition cell_28 :: cell where
  \<open>cell_28 =
   Code_Cell None
     []
     []\<close>

definition notebook :: "cell list" where
  "notebook =
   [cell_00, cell_01, cell_02, cell_03, cell_04, cell_05,
    cell_06, cell_07, cell_08, cell_09, cell_10, cell_11,
    cell_12, cell_13, cell_14, cell_15, cell_16, cell_17,
    cell_18, cell_19, cell_20, cell_21, cell_22, cell_23,
    cell_24, cell_25, cell_26, cell_27, cell_28]"

definition travis_yml :: "string list" where
  \<open>travis_yml =
   [''language: python'',
    ''notifications:'',
    ''  email: false'',
    '''',
    ''os:'',
    ''  - linux'',
    '''',
    ''python:'',
    ''  - "3.6"'',
    ''  # whitelist'',
    ''# branches:'',
    ''#   only:'',
    ''#     - master'',
    ''# command to install dependencies'',
    ''install:'',
    ''    - pip install --upgrade pip'',
    ''    - pip install ipython'',
    ''    - pip install -r develop_requirements.txt'',
    ''    - pip install qcodes # Added explictly here'',
    ''    - pip install coverage pytest-cov pytest --upgrade'',
    ''    - pip install codacy-coverage'',
    ''    - pip install -e .'',
    '''',
    ''before_script: # configure a headless display to test plot generation'',
    ''- "export DISPLAY=:99.0"'',
    ''- "sh -e /etc/init.d/xvfb start"'',
    ''- sleep 3 # give xvfb some time to start'',
    '''',
    ''# command to run tests'',
    ''script:'',
    ''    - py.test pycqed/tests --cov=pycqed --cov-report xml --cov-config=.coveragerc'',
    '''',
    ''after_success:'',
    ''    - pip install codacy-coverage'',
    ''    - python-codacy-coverage -r coverage.xml'']\<close>

text \<open>The files of the repository, by path relative to its root.\<close>

datatype content = Notebook "cell list" | Yaml "string list"

definition repository :: "(string \<times> content) list" where
  "repository =
   [(''.travis.yml'', Yaml travis_yml),
    (''examples/Setting up a basic measurement using the MC.ipynb'', Notebook notebook)]"

section \<open>Strings\<close>

text \<open>\<open>starts_with p s\<close> is Python's \<^verbatim>\<open>s.startswith(p)\<close>, \<open>contains p s\<close> is
  \<^verbatim>\<open>p in s\<close>, and \<open>rests_after p s\<close> lists, for every occurrence of \<open>p\<close> in \<open>s\<close>,
  the text that follows it.\<close>

fun starts_with :: "string \<Rightarrow> string \<Rightarrow> bool" where
  "starts_with [] s = True"
| "starts_with (p # ps) [] = False"
| "starts_with (p # ps) (c # cs) = (p = c \<and> starts_with ps cs)"

fun contains :: "string \<Rightarrow> string \<Rightarrow> bool" where
  "contains p [] = (p = [])"
| "contains p (c # cs) = (starts_with p (c # cs) \<or> contains p cs)"

fun rests_after :: "string \<Rightarrow> string \<Rightarrow> string list" where
  "rests_after p [] = []"
| "rests_after p (c # cs) =
     (if starts_with p (c # cs) then drop (length p) (c # cs) # rests_after p cs
      else rests_after p cs)"

definition is_space :: "char \<Rightarrow> bool" where
  "is_space c = (c = CHR '' '' \<or> c = CHR 0x09)"

definition is_digit :: "char \<Rightarrow> bool" where
  "is_digit c = (c \<in> set ''0123456789'')"

definition lstrip :: "string \<Rightarrow> string" where
  "lstrip s = dropWhile is_space s"

definition rstrip :: "string \<Rightarrow> string" where
  "rstrip s = rev (dropWhile is_space (rev s))"

definition strip :: "string \<Rightarrow> string" where
  "strip s = lstrip (rstrip s)"

text \<open>\<open>split_on d s\<close> is \<^verbatim>\<open>s.split(d)\<close> for a one-character separator, and
  \<open>words_of s\<close> lists the non-empty pieces of \<open>s\<close> between spaces.\<close>

fun split_on :: "char \<Rightarrow> string \<Rightarrow> string list" where
  "split_on d [] = [[]]"
| "split_on d (c # cs) =
     (case split_on d cs of
        w # ws \<Rightarrow> if c = d then [] # w # ws else (c # w) # ws
      | [] \<Rightarrow> [[c]])"

definition words_of :: "string \<Rightarrow> string list" where
  "words_of s = filter (\<lambda>w. w \<noteq> []) (split_on (CHR '' '') s)"

section \<open>Reading the CI configuration\<close>

text \<open>
  The configuration uses a small part of YAML: top-level keys at column 0, block sequences
  of plain or double-quoted scalars under them, and comments. A comment starts at a
  \<^verbatim>\<open>#\<close> that opens the line or follows a blank; no quoted scalar of the file
  contains one.
\<close>

fun uncomment :: "bool \<Rightarrow> string \<Rightarrow> string" where
  "uncomment b [] = []"
| "uncomment b (c # cs) =
     (if c = CHR ''#'' \<and> b then [] else c # uncomment (is_space c) cs)"

definition yaml_line :: "string \<Rightarrow> string" where
  "yaml_line l = rstrip (uncomment True l)"

definition comment_of :: "string \<Rightarrow> string" where
  "comment_of l = drop (length (uncomment True l)) l"

definition is_key :: "string \<Rightarrow> bool" where
  "is_key y = (case y of [] \<Rightarrow> False
     | c # cs \<Rightarrow> \<not> is_space c \<and> c \<noteq> CHR ''-'' \<and> CHR '':'' \<in> set y)"

definition key_of :: "string \<Rightarrow> string" where
  "key_of y = takeWhile (\<lambda>c. c \<noteq> CHR '':'') y"

definition unquote :: "string \<Rightarrow> string" where
  "unquote s =
     (if 2 \<le> length s \<and> hd s = CHR 0x22 \<and> last s = CHR 0x22 then butlast (tl s) else s)"

definition item_of :: "string \<Rightarrow> string option" where
  "item_of y =
     (let t = lstrip y in
      if starts_with ''- '' t then Some (unquote (strip (drop 2 t))) else None)"

text \<open>\<open>items k inside ls\<close> collects the sequence items under the top-level key \<open>k\<close>;
  \<open>inside\<close> tells whether the lines read so far have opened that key.\<close>

fun items :: "string \<Rightarrow> bool \<Rightarrow> string list \<Rightarrow> string list" where
  "items k inside [] = []"
| "items k inside (l # ls) =
     (let y = yaml_line l in
      if is_key y then items k (key_of y = k) ls
      else case item_of y of
             Some it \<Rightarrow> if inside then it # items k inside ls else items k inside ls
           | None \<Rightarrow> items k inside ls)"

definition phase :: "string \<Rightarrow> string list \<Rightarrow> string list" where
  "phase k yml = items k False yml"

definition keys_in_order :: "string list \<Rightarrow> string list" where
  "keys_in_order yml = map key_of (filter is_key (map yaml_line yml))"

definition key_lines :: "string \<Rightarrow> string list \<Rightarrow> string list" where
  "key_lines k yml = filter (\<lambda>l. is_key (yaml_line l) \<and> key_of (yaml_line l) = k) yml"

text \<open>
  Travis CI runs the phases of a job in a fixed order, whatever the order of the keys in
  the file; \<^verbatim>\<open>after_success\<close> runs when the \<^verbatim>\<open>script\<close> phase succeeded
  (\<^verbatim>\<open>after_failure\<close>, which the file does not use, would run in its place otherwise).
  A run is the sequence of its steps, each a phase name with a command.
\<close>

definition job_lifecycle :: "string list" where
  "job_lifecycle =
   [''before_install'', ''install'', ''before_script'', ''script'', ''before_cache'',
    ''after_success'', ''before_deploy'', ''deploy'', ''after_deploy'', ''after_script'']"

definition ci_run :: "string list \<Rightarrow> (string \<times> string) list" where
  "ci_run yml = concat (map (\<lambda>p. map (Pair p) (phase p yml)) job_lifecycle)"

definition steps_of :: "string \<Rightarrow> (string \<times> string) list \<Rightarrow> nat list" where
  "steps_of p run = filter (\<lambda>i. fst (run ! i) = p) [0..<length run]"

definition precedes :: "string \<Rightarrow> string \<Rightarrow> (string \<times> string) list \<Rightarrow> bool" where
  "precedes p q run = (\<forall>i \<in> set (steps_of p run). \<forall>j \<in> set (steps_of q run). i < j)"

section \<open>Reading the notebook\<close>

fun is_code :: "cell \<Rightarrow> bool" where
  "is_code (Code_Cell n src outs) = True"
| "is_code (Markdown_Cell src) = False"

fun source :: "cell \<Rightarrow> string list" where
  "source (Code_Cell n src outs) = src"
| "source (Markdown_Cell src) = src"

fun outputs :: "cell \<Rightarrow> cell_output list" where
  "outputs (Code_Cell n src outs) = outs"
| "outputs (Markdown_Cell src) = []"

text \<open>The lines of an output, each with the channel it was captured on.\<close>

fun tagged_lines :: "cell_output \<Rightarrow> (string \<times> string) list" where
  "tagged_lines (Stream name ls) = map (Pair name) ls"
| "tagged_lines (Execute_Result n ls) = map (Pair ''execute_result'') ls"

definition captured :: "cell list \<Rightarrow> (string \<times> string) list" where
  "captured nb = concat (map (\<lambda>c. concat (map tagged_lines (outputs c))) nb)"

definition stdout_of :: "cell \<Rightarrow> string list" where
  "stdout_of c = map snd (filter (\<lambda>t. fst t = ''stdout'') (concat (map tagged_lines (outputs c))))"

definition code_cells :: "cell list \<Rightarrow> cell list" where
  "code_cells nb = filter is_code nb"

definition code_lines :: "cell list \<Rightarrow> string list" where
  "code_lines nb = concat (map source (code_cells nb))"

definition markdown_lines :: "cell list \<Rightarrow> string list" where
  "markdown_lines nb = concat (map source (filter (\<lambda>c. \<not> is_code c) nb))"

fun text_lines :: "content \<Rightarrow> string list" where
  "text_lines (Notebook nb) = concat (map source nb) @ map snd (captured nb)"
| "text_lines (Yaml ls) = ls"

definition all_text :: "(string \<times> content) list \<Rightarrow> string list" where
  "all_text repo = concat (map (\<lambda>f. text_lines (snd f)) repo)"

subsection \<open>Python source lines\<close>

text \<open>The code of a line is what precedes its comment; no string literal of the notebook
  contains a \<^verbatim>\<open>#\<close>. \<open>calls f l\<close> tells whether line \<open>l\<close> calls \<open>f\<close>; the opening
  parenthesis keeps \<^verbatim>\<open>MC.set_sweep_function\<close> apart from
  \<^verbatim>\<open>MC.set_sweep_function_2D\<close> and \<^verbatim>\<open>MC.set_sweep_functions\<close>.\<close>

definition py_code :: "string \<Rightarrow> string" where
  "py_code l = takeWhile (\<lambda>c. c \<noteq> CHR ''#'') l"

definition calls :: "string \<Rightarrow> string \<Rightarrow> bool" where
  "calls f l = contains (f @ ''('') (py_code l)"

definition call_lines :: "string \<Rightarrow> string list \<Rightarrow> nat list" where
  "call_lines f src = filter (\<lambda>i. calls f (src ! i)) [0..<length src]"

text \<open>The argument text of every call of \<open>f\<close> on a line, up to the first closing
  parenthesis.\<close>

definition call_args :: "string \<Rightarrow> string \<Rightarrow> string list" where
  "call_args f l = map (takeWhile (\<lambda>c. c \<noteq> CHR '')'')) (rests_after (f @ ''('') (py_code l))"

text \<open>A Python string literal in single quotes: \<open>sq s\<close> writes one, \<open>quoted t\<close> reads the
  one that \<open>t\<close> starts with.\<close>

definition sq :: "string \<Rightarrow> string" where
  "sq s = CHR 0x27 # s @ [CHR 0x27]"

definition quoted :: "string \<Rightarrow> string option" where
  "quoted t =
     (case t of
        [] \<Rightarrow> None
      | c # cs \<Rightarrow> if c = CHR 0x27 \<and> CHR 0x27 \<in> set cs
                 then Some (takeWhile (\<lambda>x. x \<noteq> CHR 0x27) cs) else None)"

definition decimal :: "string \<Rightarrow> nat option" where
  "decimal s =
     (if s \<noteq> [] \<and> list_all is_digit s
      then Some (foldl (\<lambda>n c. 10 * n + (of_char c - 48)) 0 s) else None)"

subsection \<open>Imports\<close>

text \<open>An import statement binds a name to (a member of) a module: the result is the
  module and the bound name.\<close>

fun import_words :: "string list \<Rightarrow> (string \<times> string) option" where
  "import_words [f, m] = (if f = ''import'' then Some (m, m) else None)"
| "import_words [f, m, i, n] =
     (if f = ''from'' \<and> i = ''import'' then Some (m, n)
      else if f = ''import'' \<and> i = ''as'' then Some (m, n) else None)"
| "import_words [f, m, i, n, a, b] =
     (if f = ''from'' \<and> i = ''import'' \<and> a = ''as'' then Some (m, b) else None)"
| "import_words ws = None"

definition imports_of :: "cell list \<Rightarrow> (string \<times> string) list" where
  "imports_of nb = List.map_filter (\<lambda>l. import_words (words_of (py_code l))) (code_lines nb)"

definition from_pycqed :: "string \<Rightarrow> bool" where
  "from_pycqed m = (m = ''pycqed'' \<or> starts_with ''pycqed.'' m)"

text \<open>The names the notebook reaches through a pycqed import: those such an import
  binds, and for a bound name \<open>b\<close> whatever follows \<^verbatim>\<open>b.\<close> on a code line, up to
  the opening parenthesis of the call.\<close>

definition pycqed_names :: "cell list \<Rightarrow> string list" where
  "pycqed_names nb = map snd (filter (\<lambda>imp. from_pycqed (fst imp)) (imports_of nb))"

definition members_via :: "string \<Rightarrow> string list \<Rightarrow> string list" where
  "members_via b ls =
     concat (map (\<lambda>l. map (takeWhile (\<lambda>c. c \<noteq> CHR ''('')) (rests_after (b @ ''.'') l)) ls)"

definition referenced_names :: "cell list \<Rightarrow> string list" where
  "referenced_names nb =
     pycqed_names nb @
     concat (map (\<lambda>b. members_via b (map py_code (code_lines nb))) (pycqed_names nb))"

definition referenced :: "string \<Rightarrow> cell list \<Rightarrow> bool" where
  "referenced name nb = (name \<in> set (referenced_names nb))"

text \<open>A statement binds a name by a \<^verbatim>\<open>def\<close>, a \<^verbatim>\<open>class\<close> or an assignment to
  it; a name is defined in the repository when a line of one of its files binds it.\<close>

definition statements :: "(string \<times> content) list \<Rightarrow> string list" where
  "statements repo = map (\<lambda>l. lstrip (py_code l)) (all_text repo)"

definition binds :: "string \<Rightarrow> string \<Rightarrow> bool" where
  "binds name t =
     (starts_with (''def '' @ name) t \<or> starts_with (''class '' @ name) t \<or>
      starts_with (name @ ''='') t \<or> starts_with (name @ '' ='') t)"

definition defined_in :: "string \<Rightarrow> (string \<times> content) list \<Rightarrow> bool" where
  "defined_in name repo = (\<exists>t \<in> set (statements repo). binds name t)"

definition ends_with :: "string \<Rightarrow> string \<Rightarrow> bool" where
  "ends_with p s = starts_with (rev p) (rev s)"

definition external_objects :: "string list" where
  "external_objects =
   [''MeasurementControl'', ''None_Sweep'', ''Dummy_Detector_Hard'', ''DummyParHolder'',
    ''nelder_mead'']"

subsection \<open>Runs and their logs\<close>

text \<open>The name of a run is the first argument of \<^verbatim>\<open>MC.run\<close>, its mode the value of the
  \<^verbatim>\<open>mode\<close> keyword when the call gives one.\<close>

definition run_lines :: "string list \<Rightarrow> nat list" where
  "run_lines src = call_lines ''MC.run'' src"

definition run_name :: "string \<Rightarrow> string option" where
  "run_name l = (case rests_after ''MC.run('' (py_code l) of [] \<Rightarrow> None | r # rs \<Rightarrow> quoted r)"

definition run_mode :: "string \<Rightarrow> string option" where
  "run_mode l =
     (case rests_after ''MC.run('' (py_code l) of
        [] \<Rightarrow> None
      | r # rs \<Rightarrow> (case rests_after ''mode='' r of [] \<Rightarrow> None | m # ms \<Rightarrow> quoted m))"

definition set_before :: "string \<Rightarrow> nat \<Rightarrow> string list \<Rightarrow> bool" where
  "set_before f i src = (\<exists>l \<in> set (take i src). calls f l)"

text \<open>What a run needs set before it: a detector function; sweep functions with adaptive
  function parameters in adaptive mode, a sweep function with sweep points otherwise; and
  in 2D mode a second sweep function with its own sweep points.\<close>

definition setup_ok :: "string list \<Rightarrow> nat \<Rightarrow> bool" where
  "setup_ok src i =
     (set_before ''MC.set_detector_function'' i src \<and>
      (if run_mode (src ! i) = Some ''adaptive''
       then set_before ''MC.set_sweep_functions'' i src \<and>
            set_before ''MC.set_adaptive_function_parameters'' i src
       else set_before ''MC.set_sweep_function'' i src \<and>
            set_before ''MC.set_sweep_points'' i src) \<and>
      (if run_mode (src ! i) = Some ''2D''
       then set_before ''MC.set_sweep_function_2D'' i src \<and>
            set_before ''MC.set_sweep_points_2D'' i src
       else True))"

text \<open>The captured standard output of a cell splits into run logs, each opened by a
  \<^verbatim>\<open>Starting measurement: \<close> line.\<close>

definition starts_run :: "string \<Rightarrow> bool" where
  "starts_run l = starts_with ''Starting measurement: '' l"

fun run_logs :: "string list \<Rightarrow> string list list" where
  "run_logs [] = []"
| "run_logs (l # ls) =
     (if starts_run l then (l # takeWhile (\<lambda>x. \<not> starts_run x) ls) # run_logs ls
      else run_logs ls)"

definition all_run_logs :: "cell list \<Rightarrow> string list list" where
  "all_run_logs nb = concat (map (\<lambda>c. run_logs (stdout_of c)) (code_cells nb))"

text \<open>A progress line gives a percentage, then the elapsed time, then the time left.\<close>

definition progress_line :: "string \<Rightarrow> bool" where
  "progress_line l =
     (let t = lstrip l; pct = takeWhile is_digit t; r = drop (length pct) t in
      pct \<noteq> [] \<and> starts_with ''% completed'' r \<and>
      (\<exists>e \<in> set (rests_after ''elapsed time: '' r). contains ''time left: '' e))"

definition reports_progress :: "string list \<Rightarrow> bool" where
  "reports_progress log = (\<exists>l \<in> set log. progress_line l)"

text \<open>The number of sweep functions a run works with: two in 2D mode, as many as the
  list of the last \<^verbatim>\<open>MC.set_sweep_functions\<close> call before it holds in adaptive mode,
  one otherwise.\<close>

definition list_size :: "string \<Rightarrow> nat" where
  "list_size a = length (split_on (CHR '','') (takeWhile (\<lambda>c. c \<noteq> CHR '']'') a))"

definition sweep_dims :: "string list \<Rightarrow> nat \<Rightarrow> nat" where
  "sweep_dims src i =
     (if run_mode (src ! i) = Some ''2D'' then 2
      else if run_mode (src ! i) = Some ''adaptive''
      then (case concat (map (call_args ''MC.set_sweep_functions'') (rev (take i src))) of
              [] \<Rightarrow> 0 | a # as \<Rightarrow> list_size a)
      else 1)"

definition labelled :: "string \<Rightarrow> string \<Rightarrow> bool" where
  "labelled p l = (starts_with p l \<and> length p < length l)"

fun header_ok :: "nat \<Rightarrow> string \<Rightarrow> string list \<Rightarrow> bool" where
  "header_ok dims name (a # b # c # rest) =
     (a = ''Starting measurement: '' @ name \<and>
      (if dims = 1 then labelled ''Sweep function: '' b \<and> labelled ''Detector function: '' c
       else dims = 2 \<and> labelled ''Sweep function 0: '' b \<and> labelled ''Sweep function 1: '' c \<and>
            (case rest of [] \<Rightarrow> False | d # ds \<Rightarrow> labelled ''Detector function: '' d)))"
| "header_ok dims name log = False"

definition logs_match :: "cell \<Rightarrow> bool" where
  "logs_match c =
     list_all2
       (\<lambda>i log. case run_name (source c ! i) of
                   None \<Rightarrow> False
                 | Some name \<Rightarrow> header_ok (sweep_dims (source c) i) name log)
       (run_lines (source c)) (run_logs (stdout_of c))"

text \<open>Progress reporting by mode: a run in adaptive mode closes its log with the time the
  optimization took and prints no progress line; every other run prints one.\<close>

definition progress_by_mode :: "cell \<Rightarrow> bool" where
  "progress_by_mode c =
     list_all2
       (\<lambda>i log. if run_mode (source c ! i) = Some ''adaptive''
                 then starts_with ''Optimization completed in '' (last log) \<and>
                      \<not> reports_progress log
                 else reports_progress log)
       (run_lines (source c)) (run_logs (stdout_of c))"

subsection \<open>Soft averaging and sweep control\<close>

definition soft_avg_lines :: "string list \<Rightarrow> nat list" where
  "soft_avg_lines src = call_lines ''MC.soft_avg'' src"

definition soft_avg_count :: "string \<Rightarrow> nat option" where
  "soft_avg_count l =
     (case call_args ''MC.soft_avg'' l of [] \<Rightarrow> None | a # as \<Rightarrow> decimal a)"

text \<open>The sweep function classes are the names imported from a module
  \<^verbatim>\<open>sweep_functions\<close>; a construction is a call of one of them.\<close>

definition sweep_classes :: "cell list \<Rightarrow> string list" where
  "sweep_classes nb =
     map snd (filter (\<lambda>imp. ends_with ''.sweep_functions'' (fst imp)) (imports_of nb))"

definition sweep_constructions :: "cell list \<Rightarrow> string list" where
  "sweep_constructions nb =
     concat (map (\<lambda>k. concat (map (call_args k) (code_lines nb))) (sweep_classes nb))"

subsection \<open>Error handling\<close>

text \<open>A Python statement that handles or signals an error, and a line of text that
  speaks of one.\<close>

definition error_handling_stmt :: "string \<Rightarrow> bool" where
  "error_handling_stmt l =
     (case words_of (py_code l) of
        [] \<Rightarrow> False
      | w # ws \<Rightarrow> w \<in> set [''try:'', ''try'', ''except'', ''except:'', ''finally:'', ''finally'',
                           ''raise'', ''assert''])"

definition error_related :: "string \<Rightarrow> bool" where
  "error_related l =
     (\<exists>w \<in> set [''Error'', ''error'', ''ERROR'', ''Exception'', ''Traceback'', ''WARNING'',
                ''Warning'']. contains w l)"

subsection \<open>Roles of the files\<close>

text \<open>A statement that defines a function or a class, a path that names Python source,
  and the role a file plays: the notebook under \<^verbatim>\<open>examples/\<close> only uses what it
  imports, the YAML file is the Travis configuration.\<close>

definition definition_stmt :: "string \<Rightarrow> bool" where
  "definition_stmt l =
     (let t = lstrip (py_code l) in starts_with ''def '' t \<or> starts_with ''class '' t)"

definition is_python_source :: "string \<Rightarrow> bool" where
  "is_python_source p = ends_with ''.py'' p"

fun usage_or_glue :: "string \<times> content \<Rightarrow> bool" where
  "usage_or_glue (p, Notebook nb) =
     (starts_with ''examples/'' p \<and> ends_with ''.ipynb'' p \<and>
      (\<forall>l \<in> set (code_lines nb). \<not> definition_stmt l))"
| "usage_or_glue (p, Yaml ls) = (p = ''.travis.yml'')"

subsection \<open>Commands of the CI run\<close>

definition installs_packages :: "string \<Rightarrow> bool" where
  "installs_packages cmd =
     (case words_of cmd of p # i # args \<Rightarrow> p = ''pip'' \<and> i = ''install'' \<and> args \<noteq> [] | _ \<Rightarrow> False)"

text \<open>A test command names the runner, a directory \<^verbatim>\<open>tests\<close> and a coverage option.\<close>

definition runs_tests_with_coverage :: "string \<Rightarrow> bool" where
  "runs_tests_with_coverage cmd =
     (case words_of cmd of
        [] \<Rightarrow> False
      | runner # args \<Rightarrow>
          runner = ''py.test'' \<and>
          (\<exists>a \<in> set args. \<not> starts_with ''-'' a \<and> last (split_on (CHR ''/'') a) = ''tests'') \<and>
          (\<exists>a \<in> set args. starts_with ''--cov'' a))"

subsection \<open>Soft averaging in the notebook\<close>

text \<open>The call at line \<open>i\<close> sets a positive number of soft averages, and the cell runs a
  measurement only after it.\<close>

definition configures_before_run :: "string list \<Rightarrow> nat \<Rightarrow> bool" where
  "configures_before_run src i =
     ((case soft_avg_count (src ! i) of None \<Rightarrow> False | Some n \<Rightarrow> 1 \<le> n) \<and>
      run_lines src \<noteq> [] \<and> (\<forall>j \<in> set (run_lines src). i < j))"

subsection \<open>Soft averaging in the measurement control\<close>

text \<open>
  Modelled from the spec: the class \<^verbatim>\<open>MeasurementControl\<close>, with its parameter
  \<^verbatim>\<open>soft_avg\<close> and its method \<^verbatim>\<open>run\<close>, is not among the supplied files; the
  notebook only calls it. The specification says of soft averaging that it is
  ``repeating an entire measurement multiple times and averaging results, as opposed to
  hardware-side averaging''; the notebook's text adds that the number of soft averages
  ``determines how many times the experiment will be performed'', that ``only the averaged
  data is plotted and saved'', and that it ``can be set as a parameter of the Measurement
  Control''.

  The measurement control holds the parameter, and \<^verbatim>\<open>MC.soft_avg(n)\<close> sets it. An
  experiment over \<open>points\<close> sweep points is a function \<open>m\<close>: \<open>m k p\<close> is the value
  acquired at sweep point \<open>p\<close> when the entire measurement is performed for the \<open>k\<close>-th
  time. A run performs the entire measurement as many times as the parameter says and
  saves, for every sweep point, the average of the values acquired there. The values
  are taken in any field of characteristic 0 (the rationals, the reals), so the average
  is the exact one.
\<close>

record measurement_control =
  soft_avg :: nat

definition set_soft_avg :: "nat \<Rightarrow> measurement_control \<Rightarrow> measurement_control" where
  "set_soft_avg n mc = mc\<lparr>soft_avg := n\<rparr>"

definition dataset :: "nat \<Rightarrow> (nat \<Rightarrow> 'a) \<Rightarrow> 'a list" where
  "dataset points f = map f [0..<points]"

definition average :: "nat \<Rightarrow> 'a::field list list \<Rightarrow> 'a list" where
  "average points ds =
     map (\<lambda>p. sum_list (map (\<lambda>d. d ! p) ds) / of_nat (length ds)) [0..<points]"

record 'a run_result =
  performed :: "'a list list"
  saved :: "'a list"

definition run ::
  "measurement_control \<Rightarrow> nat \<Rightarrow> (nat \<Rightarrow> nat \<Rightarrow> 'a::field) \<Rightarrow> 'a run_result" where
  "run mc points m =
     (let ds = map (\<lambda>k. dataset points (m k)) [0..<soft_avg mc]
      in \<lparr>performed = ds, saved = average points ds\<rparr>)"

text \<open>
  The lines of a code cell act on the measurement control in order: a line with a
  \<^verbatim>\<open>MC.soft_avg(n)\<close> call sets the parameter, any other line leaves it as it is.
  \<open>state_at src j mc\<close> is the measurement control when line \<open>j\<close> of the cell is reached
  from \<open>mc\<close>, and \<open>run_at src j mc points m\<close> the run that the \<^verbatim>\<open>MC.run\<close> call on
  that line then makes. \<open>configured src j\<close> is the number the last \<^verbatim>\<open>MC.soft_avg\<close>
  call before line \<open>j\<close> gives.
\<close>

definition exec_line :: "string \<Rightarrow> measurement_control \<Rightarrow> measurement_control" where
  "exec_line l mc = (case soft_avg_count l of None \<Rightarrow> mc | Some n \<Rightarrow> set_soft_avg n mc)"

definition state_at :: "string list \<Rightarrow> nat \<Rightarrow> measurement_control \<Rightarrow> measurement_control" where
  "state_at src j mc = foldl (\<lambda>s l. exec_line l s) mc (take j src)"

definition run_at ::
  "string list \<Rightarrow> nat \<Rightarrow> measurement_control \<Rightarrow> nat \<Rightarrow> (nat \<Rightarrow> nat \<Rightarrow> 'a::field) \<Rightarrow>
     'a run_result" where
  "run_at src j mc points m = run (state_at src j mc) points m"

definition configured :: "string list \<Rightarrow> nat \<Rightarrow> nat option" where
  "configured src j =
     (case List.map_filter soft_avg_count (rev (take j src)) of
        [] \<Rightarrow> None
      | n # ns \<Rightarrow> Some n)"

section \<open>Evaluation lemmas\<close>

text \<open>Each of the following facts is the value of a reader on the supplied files.\<close>

lemma repository_files:
  "map fst repository =
     [''.travis.yml'', ''examples/Setting up a basic measurement using the MC.ipynb'']"
  by (simp add: repository_def)

lemma notebook_without_definitions:
  "\<forall>l \<in> set (code_lines notebook). \<not> definition_stmt l"
  by code_simp

lemma script_phase:
  "phase ''script'' travis_yml =
     [''py.test pycqed/tests --cov=pycqed --cov-report xml --cov-config=.coveragerc'']"
  by code_simp

lemma install_phase:
  "phase ''install'' travis_yml =
     [''pip install --upgrade pip'', ''pip install ipython'',
      ''pip install -r develop_requirements.txt'', ''pip install qcodes'',
      ''pip install coverage pytest-cov pytest --upgrade'', ''pip install codacy-coverage'',
      ''pip install -e .'']"
  by code_simp

lemma before_script_phase:
  "phase ''before_script'' travis_yml =
     [''export DISPLAY=:99.0'', ''sh -e /etc/init.d/xvfb start'', ''sleep 3'']"
  by code_simp

lemma before_script_comment:
  "map comment_of (key_lines ''before_script'' travis_yml) =
     [''# configure a headless display to test plot generation'']"
  by code_simp

lemma run_steps:
  "map fst (ci_run travis_yml) =
     [''install'', ''install'', ''install'', ''install'', ''install'', ''install'', ''install'',
      ''before_script'', ''before_script'', ''before_script'', ''script'',
      ''after_success'', ''after_success'']"
  by code_simp

lemma install_steps: "steps_of ''install'' (ci_run travis_yml) = [0, 1, 2, 3, 4, 5, 6]"
  by code_simp

lemma before_script_steps: "steps_of ''before_script'' (ci_run travis_yml) = [7, 8, 9]"
  by code_simp

lemma script_steps: "steps_of ''script'' (ci_run travis_yml) = [10]"
  by code_simp

lemma no_error_handling_stmt: "filter error_handling_stmt (code_lines notebook) = []"
  by code_simp

lemma no_after_failure: "key_lines ''after_failure'' travis_yml = []"
  by code_simp

lemma error_related_outputs:
  "filter (\<lambda>t. error_related (snd t)) (captured notebook) =
     [(''stderr'', ''WARNING:root:Error getting or interpreting *IDN?: '' @ sq [])]"
  by code_simp

lemma error_related_text:
  "filter error_related (all_text repository) =
     [''WARNING:root:Error getting or interpreting *IDN?: '' @ sq []]"
  by code_simp

lemma idn_message_once:
  "length (filter (contains ''Error getting or interpreting *IDN?'')
     (map snd (captured notebook))) = 1"
  by code_simp

lemma objects_referenced: "\<forall>name \<in> set external_objects. referenced name notebook"
  by code_simp

lemma objects_not_defined: "\<forall>name \<in> set external_objects. \<not> defined_in name repository"
  by code_simp

lemma configured_counts:
  "\<forall>c \<in> set (code_cells notebook). \<forall>i \<in> set (soft_avg_lines (source c)).
     \<forall>j \<in> set (run_lines (source c)). configured (source c) j = soft_avg_count (source c ! i)"
  by code_simp

lemma soft_avg_calls:
  "\<forall>c \<in> set (code_cells notebook). \<forall>i \<in> set (soft_avg_lines (source c)).
     configures_before_run (source c) i"
  by code_simp

lemma sweep_classes_notebook: "sweep_classes notebook = [''None_Sweep'']"
  by code_simp

lemma sweep_constructions_notebook:
  "sweep_constructions notebook =
     [''sweep_control='' @ sq ''hard'', ''sweep_control='' @ sq ''hard'',
      ''sweep_control='' @ sq ''hard'', ''sweep_control='' @ sq ''soft'',
      ''sweep_control='' @ sq ''hard'', ''sweep_control='' @ sq ''hard'',
      ''sweep_control='' @ sq ''soft'']"
  by code_simp

lemma sweep_control_values:
  "\<forall>l \<in> set (all_text repository). \<forall>r \<in> set (rests_after ''sweep_control'' l).
     starts_with (''='' @ sq ''hard'') r \<or> starts_with (''='' @ sq ''soft'') r"
  by code_simp

lemma runs_set_up:
  "\<forall>c \<in> set (code_cells notebook). \<forall>i \<in> set (run_lines (source c)).
     setup_ok (source c) i"
  by code_simp

lemma run_modes:
  "\<forall>c \<in> set (code_cells notebook). \<forall>i \<in> set (run_lines (source c)).
     run_mode (source c ! i) \<in> {None, Some ''2D'', Some ''adaptive''}"
  by code_simp

lemma logs_match_runs: "\<forall>c \<in> set (code_cells notebook). logs_match c"
  by code_simp

lemma logs_cover_stdout:
  "\<forall>c \<in> set (code_cells notebook).
     run_lines (source c) = [] \<or> concat (run_logs (stdout_of c)) = stdout_of c"
  by code_simp

lemma adaptive_log:
  "all_run_logs notebook ! 8 =
     [''Starting measurement: 1D test'', ''Sweep function 0: module'',
      ''Sweep function 1: module'', ''Detector function: parabola'',
      ''Optimization completed in 1.564s'']"
  by code_simp

lemma run_log_count: "length (all_run_logs notebook) = 9"
  by code_simp

lemma test_command:
  "runs_tests_with_coverage
     ''py.test pycqed/tests --cov=pycqed --cov-report xml --cov-config=.coveragerc''"
  by code_simp

lemma install_commands:
  "\<forall>cmd \<in> set (phase ''install'' travis_yml). installs_packages cmd"
  by code_simp

lemma paths_not_python:
  "\<forall>f \<in> set repository. \<not> is_python_source (fst f)"
  by code_simp

lemma measurement_control_instance:
  "\<exists>l \<in> set (code_lines notebook).
     starts_with ''MC = measurement_control.MeasurementControl('' l"
  by code_simp

lemma travis_keys:
  "keys_in_order travis_yml =
     [''language'', ''notifications'', ''os'', ''python'', ''install'', ''before_script'',
      ''script'', ''after_success'']"
  by code_simp

lemma no_pycqed_files: "filter (starts_with ''pycqed/'') (map fst repository) = []"
  by code_simp

text \<open>The parameter of the measurement control when a line is reached is the number of
  the last call that set it, whatever it was before; a run performs the measurement that
  many times and saves the mean at every sweep point.\<close>

lemma soft_avg_foldl:
  "soft_avg (foldl (\<lambda>s l. exec_line l s) mc ls) =
     (case List.map_filter soft_avg_count (rev ls) of [] \<Rightarrow> soft_avg mc | n # ns \<Rightarrow> n)"
proof (induction ls rule: rev_induct)
  case Nil
  show ?case by (simp add: List.map_filter_simps)
next
  case (snoc l ls)
  show ?case
  proof (cases "soft_avg_count l")
    case None
    with snoc show ?thesis by (simp add: exec_line_def List.map_filter_simps)
  next
    case (Some n)
    then show ?thesis by (simp add: exec_line_def set_soft_avg_def List.map_filter_simps)
  qed
qed

lemma state_at_configured:
  "configured src j = Some n \<Longrightarrow> soft_avg (state_at src j mc) = n"
  by (simp add: state_at_def configured_def soft_avg_foldl split: list.splits)

lemma run_performed:
  "performed (run mc points m) = map (\<lambda>k. dataset points (m k)) [0..<soft_avg mc]"
  by (simp add: run_def Let_def)

lemma run_saved_length: "length (saved (run mc points m)) = points"
  by (simp add: run_def Let_def average_def)

lemma run_saved_mean:
  assumes "1 \<le> soft_avg mc" and "p < points"
  shows "saved (run mc points m) ! p * of_nat (soft_avg mc) =
         (\<Sum>k\<leftarrow>[0..<soft_avg mc]. (m k p :: 'a::field_char_0))"
proof -
  have "saved (run mc points m) ! p =
        (\<Sum>k\<leftarrow>[0..<soft_avg mc]. m k p) / of_nat (soft_avg mc)"
    using assms(2) by (simp add: run_def Let_def average_def dataset_def comp_def)
  with assms(1) show ?thesis by simp
qed

lemma code_cellI: "c \<in> set nb \<Longrightarrow> is_code c \<Longrightarrow> c \<in> set (code_cells nb)"
  by (simp add: code_cells_def)

section \<open>The claims\<close>

text \<open>
  C1. Every file of the repository is either the demonstration notebook, whose code cells
  define no function and no class (they only use what they import), or the CI
  configuration \<^verbatim>\<open>.travis.yml\<close>; no file is Python source.
\<close>

theorem files_are_usage_or_glue:
  "\<forall>f \<in> set repository. usage_or_glue f \<and> \<not> is_python_source (fst f)"
proof
  fix f assume f: "f \<in> set repository"
  then have "usage_or_glue f"
    using notebook_without_definitions by (auto simp add: repository_def ends_with_def)
  with f paths_not_python show "usage_or_glue f \<and> \<not> is_python_source (fst f)"
    by blast
qed

theorem files_are_usage_or_glue_witness:
  "usage_or_glue (repository ! 1) \<and> \<not> is_python_source (fst (repository ! 1))"
proof -
  have "repository ! 1 \<in> set repository" by (simp add: repository_def)
  with files_are_usage_or_glue show ?thesis by blast
qed

text \<open>
  C2, as amended. Every captured log of a run that is not in adaptive mode has a progress
  line: a percentage completed, the elapsed time and the time left. The log of the run in
  adaptive mode has no such line; it closes with the time the optimization took.
\<close>

theorem progress_reported_unless_adaptive:
  "\<forall>c \<in> set (code_cells notebook). progress_by_mode c"
  by code_simp

theorem progress_reported_unless_adaptive_witness:
  "progress_by_mode cell_07 \<and> progress_by_mode cell_27"
proof -
  have "cell_07 \<in> set (code_cells notebook)"
    by (rule code_cellI) (simp add: notebook_def, simp add: cell_07_def)
  moreover have "cell_27 \<in> set (code_cells notebook)"
    by (rule code_cellI) (simp add: notebook_def, simp add: cell_27_def)
  ultimately show ?thesis using progress_reported_unless_adaptive by blast
qed

text \<open>
  C2 as the specification states it fails: the ninth captured run log, that of the
  adaptive run, has no line that reports progress.
\<close>

theorem adaptive_log_without_progress:
  "all_run_logs notebook ! 8 \<in> set (all_run_logs notebook) \<and>
   all_run_logs notebook ! 8 =
     [''Starting measurement: 1D test'', ''Sweep function 0: module'',
      ''Sweep function 1: module'', ''Detector function: parabola'',
      ''Optimization completed in 1.564s''] \<and>
   \<not> reports_progress (all_run_logs notebook ! 8)"
proof -
  have "all_run_logs notebook ! 8 \<in> set (all_run_logs notebook)"
    by (rule nth_mem) (simp add: run_log_count)
  moreover have "\<not> reports_progress (all_run_logs notebook ! 8)"
    unfolding adaptive_log by code_simp
  ultimately show ?thesis using adaptive_log by simp
qed

text \<open>
  C3. The \<^verbatim>\<open>script\<close> phase is one command, \<^verbatim>\<open>py.test\<close> over
  \<^verbatim>\<open>pycqed/tests\<close> with coverage options; the \<^verbatim>\<open>install\<close> phase is not empty,
  each of its commands is a \<^verbatim>\<open>pip install\<close>, and in the run every step of it comes
  before every step of the \<^verbatim>\<open>script\<close> phase. The file lists the two keys in the
  same order.
\<close>

theorem ci_tests_with_coverage_after_install:
  "phase ''script'' travis_yml =
     [''py.test pycqed/tests --cov=pycqed --cov-report xml --cov-config=.coveragerc''] \<and>
   (\<forall>cmd \<in> set (phase ''script'' travis_yml). runs_tests_with_coverage cmd) \<and>
   phase ''install'' travis_yml \<noteq> [] \<and>
   (\<forall>cmd \<in> set (phase ''install'' travis_yml). installs_packages cmd) \<and>
   precedes ''install'' ''script'' (ci_run travis_yml) \<and>
   filter (\<lambda>k. k \<in> set [''install'', ''script'']) (keys_in_order travis_yml) =
     [''install'', ''script'']"
proof -
  have "\<forall>cmd \<in> set (phase ''script'' travis_yml). runs_tests_with_coverage cmd"
    using test_command by (simp add: script_phase)
  moreover have "phase ''install'' travis_yml \<noteq> []"
    by (simp add: install_phase)
  moreover have "precedes ''install'' ''script'' (ci_run travis_yml)"
    by (simp add: precedes_def install_steps script_steps)
  moreover have "filter (\<lambda>k. k \<in> set [''install'', ''script'']) (keys_in_order travis_yml) =
     [''install'', ''script'']"
    by (simp add: travis_keys)
  ultimately show ?thesis using script_phase install_commands by blast
qed

theorem ci_tests_with_coverage_after_install_witness:
  "installs_packages ''pip install -e .'' \<and>
   6 \<in> set (steps_of ''install'' (ci_run travis_yml)) \<and>
   10 \<in> set (steps_of ''script'' (ci_run travis_yml)) \<and> (6::nat) < 10"
proof -
  have "''pip install -e .'' \<in> set (phase ''install'' travis_yml)"
    by (simp add: install_phase)
  moreover have "6 \<in> set (steps_of ''install'' (ci_run travis_yml))"
    by (simp add: install_steps)
  moreover have "10 \<in> set (steps_of ''script'' (ci_run travis_yml))"
    by (simp add: script_steps)
  ultimately show ?thesis
    using ci_tests_with_coverage_after_install unfolding precedes_def by blast
qed

text \<open>
  C4. No code line of the notebook is a \<^verbatim>\<open>try\<close>, \<^verbatim>\<open>except\<close>, \<^verbatim>\<open>finally\<close>,
  \<^verbatim>\<open>raise\<close> or \<^verbatim>\<open>assert\<close> statement, and the CI configuration has no
  \<^verbatim>\<open>after_failure\<close> phase. Of all the lines of the two files, exactly one speaks of
  an error or a warning: the captured line with \<^verbatim>\<open>Error getting or interpreting *IDN?\<close>.
  It occurs once among the captured outputs, on the \<^verbatim>\<open>stderr\<close> stream.
\<close>

theorem single_incidental_error_line:
  "filter error_handling_stmt (code_lines notebook) = [] \<and>
   key_lines ''after_failure'' travis_yml = [] \<and>
   filter error_related (all_text repository) =
     [''WARNING:root:Error getting or interpreting *IDN?: '' @ sq []] \<and>
   filter (\<lambda>t. error_related (snd t)) (captured notebook) =
     [(''stderr'', ''WARNING:root:Error getting or interpreting *IDN?: '' @ sq [])] \<and>
   length (filter (contains ''Error getting or interpreting *IDN?'')
     (map snd (captured notebook))) = 1"
  using no_error_handling_stmt no_after_failure error_related_text error_related_outputs
    idn_message_once
  by blast

text \<open>
  C5. Each of \<^verbatim>\<open>MeasurementControl\<close>, \<^verbatim>\<open>None_Sweep\<close>, \<^verbatim>\<open>Dummy_Detector_Hard\<close>,
  \<^verbatim>\<open>DummyParHolder\<close> and \<^verbatim>\<open>nelder_mead\<close> is reached in the notebook through an
  import from a pycqed module, and no line of the supplied files defines it. No supplied
  file lies in the \<^verbatim>\<open>pycqed\<close> package.
\<close>

theorem external_objects_referenced_not_defined:
  "(\<forall>name \<in> set external_objects.
      referenced name notebook \<and> \<not> defined_in name repository) \<and>
   filter (starts_with ''pycqed/'') (map fst repository) = []"
  using objects_referenced objects_not_defined no_pycqed_files by blast

theorem external_objects_referenced_not_defined_witness:
  "referenced ''MeasurementControl'' notebook \<and>
   \<not> defined_in ''MeasurementControl'' repository"
proof -
  have "''MeasurementControl'' \<in> set external_objects"
    by (simp add: external_objects_def)
  with external_objects_referenced_not_defined show ?thesis by blast
qed

text \<open>
  C6. \<^verbatim>\<open>MC\<close> is the \<^verbatim>\<open>MeasurementControl\<close> instance. Every \<^verbatim>\<open>MC.soft_avg(n)\<close>
  call of a code cell gives a positive number \<open>n\<close> and comes before every \<^verbatim>\<open>MC.run\<close>
  call of its cell, which has at least one. Each such run, whatever the soft-average
  parameter of the measurement control was when the cell started and whatever the
  experiment, performs the entire measurement exactly \<open>n\<close> times, once over all sweep
  points each time, and saves one value per sweep point: the average of the \<open>n\<close> values
  acquired there (times \<open>n\<close> it is their sum).
\<close>

theorem soft_avg_configured_before_run:
  "(\<exists>l \<in> set (code_lines notebook).
      starts_with ''MC = measurement_control.MeasurementControl('' l) \<and>
   (\<forall>c \<in> set (code_cells notebook). \<forall>i \<in> set (soft_avg_lines (source c)).
      configures_before_run (source c) i \<and>
      (\<forall>j \<in> set (run_lines (source c)).
         \<exists>n. soft_avg_count (source c ! i) = Some n \<and> 1 \<le> n \<and>
           performed (run_at (source c) j mc points m) =
             map (\<lambda>k. dataset points (m k)) [0..<n] \<and>
           length (saved (run_at (source c) j mc points m)) = points \<and>
           (\<forall>p < points.
              saved (run_at (source c) j mc points m) ! p * of_nat n =
                (\<Sum>k\<leftarrow>[0..<n]. (m k p :: 'a::field_char_0)))))"
proof (intro conjI ballI)
  show "\<exists>l \<in> set (code_lines notebook).
      starts_with ''MC = measurement_control.MeasurementControl('' l"
    by (rule measurement_control_instance)
next
  fix c i assume "c \<in> set (code_cells notebook)" "i \<in> set (soft_avg_lines (source c))"
  then show "configures_before_run (source c) i"
    using soft_avg_calls by blast
next
  fix c i j
  assume c: "c \<in> set (code_cells notebook)" and i: "i \<in> set (soft_avg_lines (source c))"
    and j: "j \<in> set (run_lines (source c))"
  from c i have "configures_before_run (source c) i"
    using soft_avg_calls by blast
  then obtain n where n: "soft_avg_count (source c ! i) = Some n" "1 \<le> n"
    by (auto simp add: configures_before_run_def split: option.splits)
  from c i j have "configured (source c) j = soft_avg_count (source c ! i)"
    using configured_counts by blast
  with n have st: "soft_avg (state_at (source c) j mc) = n"
    by (simp add: state_at_configured)
  have "performed (run_at (source c) j mc points m) =
      map (\<lambda>k. dataset points (m k)) [0..<n]"
    using st by (simp add: run_at_def run_performed)
  moreover have "length (saved (run_at (source c) j mc points m)) = points"
    by (simp add: run_at_def run_saved_length)
  moreover have "\<forall>p < points.
      saved (run_at (source c) j mc points m) ! p * of_nat n = (\<Sum>k\<leftarrow>[0..<n]. m k p)"
    using run_saved_mean [of "state_at (source c) j mc" _ points m] n(2) st
    by (simp add: run_at_def)
  ultimately show "\<exists>n. soft_avg_count (source c ! i) = Some n \<and> 1 \<le> n \<and>
      performed (run_at (source c) j mc points m) =
        map (\<lambda>k. dataset points (m k)) [0..<n] \<and>
      length (saved (run_at (source c) j mc points m)) = points \<and>
      (\<forall>p < points.
         saved (run_at (source c) j mc points m) ! p * of_nat n =
           (\<Sum>k\<leftarrow>[0..<n]. m k p))"
    using n by blast
qed

theorem soft_avg_configured_before_run_witness:
  "soft_avg_count (source cell_18 ! 1) = Some 4 \<and> run_lines (source cell_18) = [11] \<and>
   configures_before_run (source cell_18) 1 \<and>
   performed (run_at (source cell_18) 11 \<lparr>soft_avg = 15\<rparr> 2 (\<lambda>k p. of_nat (2 * k + p))) =
     [[0, 1], [2, 3], [4, 5], [6, 7 :: 'a::field_char_0]] \<and>
   saved (run_at (source cell_18) 11 \<lparr>soft_avg = 15\<rparr> 2 (\<lambda>k p. of_nat (2 * k + p))) =
     [3, 4 :: 'a]"
proof -
  let ?m = "\<lambda>k p. of_nat (2 * k + p) :: 'a"
  let ?r = "run_at (source cell_18) 11 \<lparr>soft_avg = 15\<rparr> 2 ?m"
  have c: "cell_18 \<in> set (code_cells notebook)"
    by (rule code_cellI) (simp add: notebook_def, simp add: cell_18_def)
  have i: "1 \<in> set (soft_avg_lines (source cell_18))"
    by code_simp
  have cnt: "soft_avg_count (source cell_18 ! 1) = Some 4"
    by code_simp
  have runs: "run_lines (source cell_18) = [11]"
    by code_simp
  then have j: "11 \<in> set (run_lines (source cell_18))"
    by simp
  have conf: "configures_before_run (source cell_18) 1"
    using soft_avg_configured_before_run c i by blast
  have "\<exists>n. soft_avg_count (source cell_18 ! 1) = Some n \<and> 1 \<le> n \<and>
      performed ?r = map (\<lambda>k. dataset 2 (?m k)) [0..<n] \<and> length (saved ?r) = 2 \<and>
      (\<forall>p < 2. saved ?r ! p * of_nat n = (\<Sum>k\<leftarrow>[0..<n]. ?m k p))"
    using soft_avg_configured_before_run [of "\<lparr>soft_avg = 15\<rparr>" 2 ?m] c i j by blast
  with cnt have perf: "performed ?r = map (\<lambda>k. dataset 2 (?m k)) [0..<4]"
    and len: "length (saved ?r) = 2"
    and mean: "\<forall>p < 2. saved ?r ! p * of_nat 4 = (\<Sum>k\<leftarrow>[0..<4]. ?m k p)"
    by auto
  have four: "[0..<4] = [0, 1, 2, 3::nat]"
    by (simp add: upt_rec)
  have two: "[0..<2] = [0, 1::nat]"
    by (simp add: upt_rec)
  have p1: "performed ?r = [[0, 1], [2, 3], [4, 5], [6, 7]]"
    unfolding perf four by (simp add: dataset_def two)
  from len obtain a b where ab: "saved ?r = [a, b]"
    by (auto simp add: length_Suc_conv numeral_2_eq_2)
  from mean have "saved ?r ! 0 * 4 = 12" and "saved ?r ! 1 * 4 = 16"
    unfolding four by simp_all
  with ab have "a = 3" and "b = 4"
    by simp_all
  with ab p1 cnt runs conf show ?thesis by simp
qed

text \<open>
  C7. The only sweep function class of the notebook is \<^verbatim>\<open>None_Sweep\<close>; the notebook
  constructs it, and every construction has the one argument
  \<^verbatim>\<open>sweep_control='hard'\<close> or \<^verbatim>\<open>sweep_control='soft'\<close>. Wherever
  \<^verbatim>\<open>sweep_control\<close> occurs in a line of the supplied files, \<^verbatim>\<open>='hard'\<close> or
  \<^verbatim>\<open>='soft'\<close> follows it.
\<close>

theorem sweep_control_soft_or_hard:
  "sweep_classes notebook = [''None_Sweep''] \<and> sweep_constructions notebook \<noteq> [] \<and>
   (\<forall>a \<in> set (sweep_constructions notebook).
      a = ''sweep_control='' @ sq ''hard'' \<or> a = ''sweep_control='' @ sq ''soft'') \<and>
   (\<forall>l \<in> set (all_text repository). \<forall>r \<in> set (rests_after ''sweep_control'' l).
      starts_with (''='' @ sq ''hard'') r \<or> starts_with (''='' @ sq ''soft'') r)"
proof -
  have "sweep_constructions notebook \<noteq> []"
    by (simp add: sweep_constructions_notebook)
  moreover have "\<forall>a \<in> set (sweep_constructions notebook).
      a = ''sweep_control='' @ sq ''hard'' \<or> a = ''sweep_control='' @ sq ''soft''"
    unfolding sweep_constructions_notebook by (simp del: append.simps)
  ultimately show ?thesis using sweep_classes_notebook sweep_control_values by blast
qed

theorem sweep_control_soft_or_hard_witness:
  "call_args ''None_Sweep'' (source cell_20 ! 4) = [''sweep_control='' @ sq ''soft''] \<and>
   (''sweep_control='' @ sq ''soft'' = ''sweep_control='' @ sq ''hard'' \<or>
    ''sweep_control='' @ sq ''soft'' = ''sweep_control='' @ sq ''soft'')"
proof -
  have "''sweep_control='' @ sq ''soft'' \<in> set (sweep_constructions notebook)"
    unfolding sweep_constructions_notebook by (simp del: append.simps)
  moreover have "call_args ''None_Sweep'' (source cell_20 ! 4) = [''sweep_control='' @ sq ''soft'']"
    by code_simp
  ultimately show ?thesis using sweep_control_soft_or_hard by blast
qed

text \<open>
  C8. In every code cell, every \<^verbatim>\<open>MC.run\<close> call has before it, in the same cell, a
  call that sets the detector function and, in adaptive mode, calls that set the sweep
  functions and the adaptive function parameters, otherwise calls that set a sweep
  function and its sweep points; a run with \<^verbatim>\<open>mode='2D'\<close> also has before it calls
  that set the second sweep function and the 2D sweep points. A run names no mode, or
  \<^verbatim>\<open>'2D'\<close>, or \<^verbatim>\<open>'adaptive'\<close>. Since the same cell always suffices, no run relies
  on an earlier cell.
\<close>

theorem run_preceded_by_setup:
  "\<forall>c \<in> set (code_cells notebook). \<forall>i \<in> set (run_lines (source c)).
     setup_ok (source c) i \<and>
     run_mode (source c ! i) \<in> {None, Some ''2D'', Some ''adaptive''}"
  using runs_set_up run_modes by blast

theorem run_preceded_by_setup_witness:
  "run_mode (source cell_18 ! 11) = Some ''2D'' \<and> setup_ok (source cell_18) 11 \<and>
   set_before ''MC.set_sweep_points_2D'' 11 (source cell_18)"
proof -
  have "cell_18 \<in> set (code_cells notebook)"
    by (rule code_cellI) (simp add: notebook_def, simp add: cell_18_def)
  moreover have "11 \<in> set (run_lines (source cell_18))"
    by code_simp
  ultimately have ok: "setup_ok (source cell_18) 11"
    using run_preceded_by_setup by blast
  have mode: "run_mode (source cell_18 ! 11) = Some ''2D''"
    by code_simp
  from ok mode have "set_before ''MC.set_sweep_points_2D'' 11 (source cell_18)"
    unfolding setup_ok_def by simp
  with ok mode show ?thesis by simp
qed

text \<open>
  C9. In every code cell the captured run logs correspond, in order, to the
  \<^verbatim>\<open>MC.run\<close> calls, and where the cell has such calls its whole standard output
  consists of these logs. The log of a run starts with the line
  \<^verbatim>\<open>Starting measurement: \<close> and the name passed to \<^verbatim>\<open>MC.run\<close>. A run with one sweep
  function continues with one line \<^verbatim>\<open>Sweep function: \<close> and the detector line; a run
  with two continues with \<^verbatim>\<open>Sweep function 0: \<close>, \<^verbatim>\<open>Sweep function 1: \<close> and the
  detector line, in that order. Each label is followed by a name.
\<close>

theorem run_log_headers:
  "\<forall>c \<in> set (code_cells notebook).
     logs_match c \<and>
     (run_lines (source c) = [] \<or> concat (run_logs (stdout_of c)) = stdout_of c)"
  using logs_match_runs logs_cover_stdout by blast

theorem run_log_headers_witness:
  "run_lines (source cell_14) = [7, 13] \<and> length (run_logs (stdout_of cell_14)) = 2 \<and>
   logs_match cell_14 \<and> concat (run_logs (stdout_of cell_14)) = stdout_of cell_14"
proof -
  have "cell_14 \<in> set (code_cells notebook)"
    by (rule code_cellI) (simp add: notebook_def, simp add: cell_14_def)
  then have "logs_match cell_14 \<and>
     (run_lines (source cell_14) = [] \<or>
      concat (run_logs (stdout_of cell_14)) = stdout_of cell_14)"
    using run_log_headers by blast
  moreover have "run_lines (source cell_14) = [7, 13]"
    by code_simp
  moreover have "length (run_logs (stdout_of cell_14)) = 2"
    by code_simp
  ultimately show ?thesis by simp
qed

text \<open>
  C10. The \<^verbatim>\<open>before_script\<close> phase, which the file comments as configuring a headless
  display to test plot generation, exports \<^verbatim>\<open>DISPLAY=:99.0\<close>, starts xvfb and sleeps
  3 seconds; the \<^verbatim>\<open>script\<close> phase is not empty, and in the run every step of
  \<^verbatim>\<open>before_script\<close> comes before every step of \<^verbatim>\<open>script\<close>. The file lists the
  two keys in the same order.
\<close>

theorem headless_display_before_script:
  "phase ''before_script'' travis_yml =
     [''export DISPLAY=:99.0'', ''sh -e /etc/init.d/xvfb start'', ''sleep 3''] \<and>
   map comment_of (key_lines ''before_script'' travis_yml) =
     [''# configure a headless display to test plot generation''] \<and>
   phase ''script'' travis_yml \<noteq> [] \<and>
   precedes ''before_script'' ''script'' (ci_run travis_yml) \<and>
   filter (\<lambda>k. k \<in> set [''before_script'', ''script'']) (keys_in_order travis_yml) =
     [''before_script'', ''script'']"
proof -
  have "phase ''script'' travis_yml \<noteq> []"
    by (simp add: script_phase)
  moreover have "precedes ''before_script'' ''script'' (ci_run travis_yml)"
    by (simp add: precedes_def before_script_steps script_steps)
  moreover have "filter (\<lambda>k. k \<in> set [''before_script'', ''script'']) (keys_in_order travis_yml) =
     [''before_script'', ''script'']"
    by (simp add: travis_keys)
  ultimately show ?thesis using before_script_phase before_script_comment by blast
qed

theorem headless_display_before_script_witness:
  "9 \<in> set (steps_of ''before_script'' (ci_run travis_yml)) \<and>
   10 \<in> set (steps_of ''script'' (ci_run travis_yml)) \<and> (9::nat) < 10"
proof -
  have "9 \<in> set (steps_of ''before_script'' (ci_run travis_yml))"
    by (simp add: before_script_steps)
  moreover have "10 \<in> set (steps_of ''script'' (ci_run travis_yml))"
    by (simp add: script_steps)
  ultimately show ?thesis
    using headless_display_before_script unfolding precedes_def by blast
qed

end
